theory Spec2Isabelle
  imports Complex_Main
begin

section \<open>Python values used by \<open>musicbot/socket_server.py\<close>\<close>

text \<open>
  A Python \<open>str\<close> is a sequence of code points. The model keeps the code points
  below 256, one \<^typ>\<open>char\<close> each, so that string literals of the source stay
  readable; \<open>bytes\<close> are lists of 8-bit values, again \<^typ>\<open>char\<close>. The two
  types are kept apart by name: \<open>len\<close> of a \<open>str\<close> counts code points, \<open>len\<close>
  of \<open>bytes\<close> counts bytes.
\<close>

type_synonym bytes = "char list"

definition code_point :: "char \<Rightarrow> nat" where
  "code_point c = of_char c"

text \<open>\<open>str.encode("utf-8")\<close> on code points below 256: one byte below 128,
  two bytes from 128 on.\<close>

definition utf8_char :: "char \<Rightarrow> bytes" where
  "utf8_char c =
     (if code_point c < 128 then [c]
      else [char_of (192 + code_point c div 64), char_of (128 + code_point c mod 64)])"

definition utf8_encode :: "string \<Rightarrow> bytes" where
  "utf8_encode s = concat (map utf8_char s)"

text \<open>\<open>bytes.decode("utf-8")\<close>, for the byte sequences that encode code points below
  256; \<open>None\<close> is \<open>UnicodeDecodeError\<close> (or a code point outside the model).\<close>

fun utf8_decode :: "bytes \<Rightarrow> string option" where
  "utf8_decode [] = Some []"
| "utf8_decode [b] = (if code_point b < 128 then Some [b] else None)"
| "utf8_decode (b # b' # bs) =
     (if code_point b < 128 then map_option ((#) b) (utf8_decode (b' # bs))
      else if (code_point b = 194 \<or> code_point b = 195) \<and> 128 \<le> code_point b' \<and> code_point b' < 192
      then map_option ((#) (char_of ((code_point b - 192) * 64 + (code_point b' - 128)))) (utf8_decode bs)
      else None)"

text \<open>\<open>str(n)\<close> for a non-negative \<open>int\<close>: its decimal digits.\<close>

definition digit_char :: "nat \<Rightarrow> char" where
  "digit_char d = char_of (48 + d)"

fun str_nat :: "nat \<Rightarrow> string" where
  "str_nat n = (if n < 10 then [digit_char n] else str_nat (n div 10) @ [digit_char (n mod 10)])"

declare str_nat.simps [simp del]

text \<open>\<open>str.lower()\<close> on code points below 256: the ASCII capitals and the Latin-1
  capitals (U+00C0 to U+00DE without the multiplication sign U+00D7) move up by 32.\<close>

definition lower_char :: "char \<Rightarrow> char" where
  "lower_char c =
     (let n = code_point c
      in if (65 \<le> n \<and> n \<le> 90) \<or> (192 \<le> n \<and> n \<le> 222 \<and> n \<noteq> 215) then char_of (n + 32) else c)"

definition lower :: "string \<Rightarrow> string" where
  "lower s = map lower_char s"

text \<open>\<open>str.upper()\<close>: exact on ASCII and on the Latin-1 small letters whose capital
  is again below U+0100. The capitals of U+00B5, U+00DF and U+00FF lie outside the
  modelled range, these three are left as they are.\<close>

definition upper_char :: "char \<Rightarrow> char" where
  "upper_char c =
     (let n = code_point c
      in if (97 \<le> n \<and> n \<le> 122) \<or> (224 \<le> n \<and> n \<le> 254 \<and> n \<noteq> 247) then char_of (n - 32) else c)"

definition upper :: "string \<Rightarrow> string" where
  "upper s = map upper_char s"

text \<open>\<open>str.split(";")\<close>: the fields between the separators, never an empty list.\<close>

fun split :: "char \<Rightarrow> string \<Rightarrow> string list" where
  "split sep [] = [[]]"
| "split sep (c # cs) =
     (if c = sep then [] # split sep cs
      else (case split sep cs of [] \<Rightarrow> [[c]] | f # fs \<Rightarrow> (c # f) # fs))"

section \<open>Frame codec\<close>

text \<open>
  The server frames every message it sends with the same expression
  (lines 58-59, 79-80, 105 and 172-173):
  \<^verbatim>\<open>"{}=={}".format(len(response), response).encode("utf-8")\<close>
  \<open>len\<close> is taken of the \<open>str\<close>, before encoding.
\<close>

definition frame_text :: "string \<Rightarrow> string" where
  "frame_text response = str_nat (length response) @ ''=='' @ response"

definition encode :: "string \<Rightarrow> bytes" where
  "encode response = utf8_encode (frame_text response)"

text \<open>
  Modelled from the spec: \<open>decode\<close>, the receiver's side of the codec, is not part of
  the server (the client implements it). Section 4.1 and claim C4 describe it: read the
  decimal number \<open>N\<close> in front of \<open>==\<close> and take the following \<open>N\<close> bytes as the
  payload.
\<close>

definition is_digit :: "char \<Rightarrow> bool" where
  "is_digit c = (48 \<le> code_point c \<and> code_point c \<le> 57)"

definition nat_of_digits :: "string \<Rightarrow> nat" where
  "nat_of_digits ds = foldl (\<lambda>acc d. 10 * acc + (code_point d - 48)) 0 ds"

definition decode :: "bytes \<Rightarrow> string option" where
  "decode b =
     (let ds = takeWhile is_digit b; rest = dropWhile is_digit b
      in if ds = [] \<or> take 2 rest \<noteq> ''=='' then None
         else let n = nat_of_digits ds; body = drop 2 rest
              in if length body < n then None else utf8_decode (take n body))"

definition is_ascii :: "string \<Rightarrow> bool" where
  "is_ascii s = list_all (\<lambda>c. code_point c < 128) s"

section \<open>Numbers shown to the client\<close>

text \<open>
  A Python \<open>float\<close> is taken as the rational number it stands for; rounding error of
  the binary representation is not modelled. \<open>str_round2 x\<close> is
  \<^verbatim>\<open>str(round(x, 2))\<close> for a float \<open>x\<close> (lines 276, 292 and 297): \<open>round\<close> goes
  to the nearest hundredth, a tie to the even one, and \<open>str\<close> of the result prints the
  integer part, a point, and one or two decimals (magnitudes that Python prints in
  exponent notation are outside the model).
\<close>

definition round_half_even :: "rat \<Rightarrow> int" where
  "round_half_even x =
     (let f = \<lfloor>x\<rfloor>; d = x - of_int f
      in if d < 1 / 2 then f else if 1 / 2 < d then f + 1 else if even f then f else f + 1)"

definition str_round2 :: "rat \<Rightarrow> string" where
  "str_round2 x =
     (let h = round_half_even (x * 100); a = nat \<bar>h\<bar>; frac = a mod 100
      in (if h < 0 then ''-'' else []) @ str_nat (a div 100) @ ''.''
         @ (if frac mod 10 = 0 then [digit_char (frac div 10)]
            else [digit_char (frac div 10), digit_char (frac mod 10)]))"

section \<open>The playback engine, as the server sees it\<close>

record station =
  station_name :: string
  station_cover :: string

text \<open>\<open>player.current_entry\<close>: the server tells the entries apart by the name of
  their class (lines 265 and 280). The fields are those the server reads:
  \<open>radio_station_data\<close>, \<open>title\<close>, \<open>url\<close> of a stream entry and \<open>title\<close>,
  \<open>duration\<close>, \<open>url\<close> of a URL entry.\<close>

datatype entry =
    StreamPlaylistEntry "station option" string string
  | URLPlaylistEntry string nat string
  | OtherEntry

record player =
  current_entry :: "entry option"
  is_playing :: bool
  is_paused :: bool
  progress :: rat
  volume :: rat

record spotify_track =
  certainty :: rat
  artist :: string
  song_name :: string
  cover_url :: string
  query :: string

text \<open>What the server asks of the engine. \<open>Resume\<close>, \<open>Pause\<close> and \<open>Skip\<close> are
  called on the player of a room; the others are coroutines handed to
  \<open>asyncio.run_coroutine_threadsafe\<close>, which returns at once with a future that the
  server drops: what the coroutine later does or raises never reaches the server.\<close>

datatype engine_call =
    SocketSummon string
  | Resume string
  | Pause string
  | Skip string
  | AddEntry string string
  | ImportFrom string string
  | SocketRadio string

datatype exn =
    IndexError
  | ValueError
  | NameError
  | UnboundLocalError
  | UnicodeDecodeError
  | OSError
  | SubmitError
  | ResolverError

section \<open>Sockets and the server object\<close>

type_synonym sock = nat

datatype sock_op = Sendall bytes | Shutdown | Close

text \<open>A Python \<open>dict\<close> keeps its keys in insertion order: an association list with
  distinct keys. Assigning to a present key keeps its place, a new key goes to the end.\<close>

type_synonym ('k, 'v) dict = "('k \<times> 'v) list"

fun dict_set :: "'k \<Rightarrow> 'v \<Rightarrow> ('k, 'v) dict \<Rightarrow> ('k, 'v) dict" where
  "dict_set k v [] = [(k, v)]"
| "dict_set k v ((k', v') # d) = (if k' = k then (k', v) # d else (k', v') # dict_set k v d)"

definition dict_get :: "'k \<Rightarrow> ('k, 'v) dict \<Rightarrow> 'v option" where
  "dict_get k d = map_of d k"

definition dict_pop :: "'k \<Rightarrow> ('k, 'v) dict \<Rightarrow> ('k, 'v) dict" where
  "dict_pop k d = filter (\<lambda>kv. fst kv \<noteq> k) d"

definition dict_keys :: "('k, 'v) dict \<Rightarrow> 'k list" where
  "dict_keys d = map fst d"

text \<open>
  The fields of \<open>SocketServer\<close> (lines 14-23) that the operations below read or write,
  \<open>musicbot.players\<close>, and two logs of what the server did to the outside: \<open>wire\<close>,
  the socket calls in the order they were made, and \<open>calls\<close>, the requests to the
  engine. An entry of \<open>connections\<close> is (thread, socket, address). \<open>print\<close> is not
  modelled.
\<close>

record server =
  connections :: "(nat \<times> sock \<times> nat) list"
  server_ids :: "(sock, string) dict"
  awaiting_registeration :: "(sock, string) dict"
  sockets_by_user :: "(string, sock) dict"
  stop_threads :: bool
  players :: "(string, player) dict"
  wire :: "(sock \<times> sock_op) list"
  calls :: "engine_call list"

text \<open>
  What the server cannot decide by itself: whether \<open>sendall\<close> on a socket raises,
  whether handing a coroutine to the engine's loop raises at the call, what \<open>float\<close>
  makes of a string (\<open>None\<close>: \<open>ValueError\<close>), and what \<open>SpotifyTrack.from_query\<close>
  (module \<open>spotify\<close>, not part of the sources at hand) returns (\<open>None\<close>: it raises).
\<close>

record env =
  send_fails :: "sock \<Rightarrow> bool"
  submit_fails :: "engine_call \<Rightarrow> bool"
  float_of :: "string \<Rightarrow> rat option"
  from_query :: "string \<Rightarrow> spotify_track option"

datatype 'a outcome = Returned 'a server | Raised exn server

definition sendall :: "env \<Rightarrow> sock \<Rightarrow> bytes \<Rightarrow> server \<Rightarrow> unit outcome" where
  "sendall e sck b s =
     (if send_fails e sck then Raised OSError s
      else Returned () (s\<lparr>wire := wire s @ [(sck, Sendall b)]\<rparr>))"

definition submit :: "engine_call \<Rightarrow> server \<Rightarrow> server" where
  "submit call s = s\<lparr>calls := calls s @ [call]\<rparr>"

section \<open>\<open>get_player_values\<close> (lines 250-299)\<close>

text \<open>
  The search of lines 277-278 and 293-294, for the pattern
  \<^verbatim>\<open>(?:[?&]v=|\/embed\/|\/1\/|\/v\/|https:\/\/(?:www\.)?youtu\.be\/)([^&\n?#]+)\<close>:
  the leftmost place where one of the openings is followed by at least one character
  other than \<open>&\<close>, newline, \<open>?\<close> and \<open>#\<close>; group 1 is the longest run of such
  characters there.
\<close>

definition openings :: "string list" where
  "openings = [''?v='', ''&v='', ''/embed/'', ''/1/'', ''/v/'',
               ''https://www.youtu.be/'', ''https://youtu.be/'']"

definition id_char :: "char \<Rightarrow> bool" where
  "id_char c = (c \<noteq> CHR ''&'' \<and> c \<noteq> CHR 0x0A \<and> c \<noteq> CHR ''?'' \<and> c \<noteq> CHR ''#'')"

fun match_here :: "string list \<Rightarrow> string \<Rightarrow> string option" where
  "match_here [] s = None"
| "match_here (p # ps) s =
     (if take (length p) s = p \<and> takeWhile id_char (drop (length p) s) \<noteq> []
      then Some (takeWhile id_char (drop (length p) s))
      else match_here ps s)"

fun search_video_id :: "string \<Rightarrow> string option" where
  "search_video_id [] = None"
| "search_video_id (c # cs) =
     (case match_here openings (c # cs) of
        Some g \<Rightarrow> Some g
      | None \<Rightarrow> search_video_id cs)"

definition video_id_of :: "string \<Rightarrow> string" where
  "video_id_of u = (case search_video_id u of Some g \<Rightarrow> g | None \<Rightarrow> '' '')"

definition default_cover :: string where
  "default_cover = ''http://i.imgur.com/nszu54A.jpg''"

definition play_state :: "player \<Rightarrow> string" where
  "play_state p = (if is_playing p then ''PLAYING'' else ''PAUSED'')"

text \<open>The result is the tuple of line 299: artist, song_title, video_id, cover_url,
  playing, duration, progress, volume.\<close>

type_synonym player_values =
  "string \<times> string \<times> string \<times> string \<times> string \<times> string \<times> string \<times> string"

definition get_player_values :: "env \<Rightarrow> server \<Rightarrow> string \<Rightarrow> exn + player_values" where
  "get_player_values e s room =
     (case dict_get room (players s) of
        None \<Rightarrow>
          Inr ('' '', ''NOT CONNECTED TO A CHANNEL'', '' '', default_cover,
               ''UNCONNECTED'', ''0'', ''0'', ''.5'')
      | Some p \<Rightarrow>
          (case current_entry p of
             None \<Rightarrow>
               Inr ('' '', ''NONE'', '' '', default_cover,
                    ''STOPPED'', ''0'', ''0'', str_round2 (volume p))
           | Some (StreamPlaylistEntry radio title url) \<Rightarrow>
               (case radio of
                  Some st \<Rightarrow>
                    Inr (''RADIO'', upper (station_name st), video_id_of url, station_cover st,
                         play_state p, ''0'', str_round2 (progress p), str_round2 (volume p))
                | None \<Rightarrow>
                    Inr (''STREAM'', upper title, video_id_of url, default_cover,
                         play_state p, ''0'', str_round2 (progress p), str_round2 (volume p)))
           | Some (URLPlaylistEntry title dur url) \<Rightarrow>
               (case from_query e title of
                  None \<Rightarrow> Inl ResolverError
                | Some tr \<Rightarrow>
                    if 2 / 5 < certainty tr
                    then Inr (artist tr, song_name tr, video_id_of url, cover_url tr,
                              play_state p, str_nat dur, str_round2 (progress p),
                              str_round2 (volume p))
                    else Inr ('' '', upper (query tr), video_id_of url, default_cover,
                              play_state p, str_nat dur, str_round2 (progress p),
                              str_round2 (volume p)))
           | Some OtherEntry \<Rightarrow>
               Inr ('' '', ''NOT CONNECTED TO A CHANNEL'', '' '', default_cover,
                    ''UNCONNECTED'', ''0'', ''0'', str_round2 (volume p))))"

text \<open>The text of lines 70 and 75-76 (and 164, 169-170): the fields in the order
  of the format string.\<close>

fun information :: "player_values \<Rightarrow> string" where
  "information (art, song_title, video_id, cover, playing, dur, prog, vol) =
     ''INFORMATION;'' @ art @ '';'' @ song_title @ '';'' @ video_id @ '';'' @ playing
       @ '';'' @ cover @ '';'' @ prog @ '';'' @ dur @ '';'' @ vol"

section \<open>\<open>register_handler\<close> (lines 45-60)\<close>

text \<open>The loop of lines 48-51: the first socket, in the order of the dict, whose
  token equals the presented one once both are lowered.\<close>

fun find_token :: "string \<Rightarrow> (sock, string) dict \<Rightarrow> sock option" where
  "find_token token [] = None"
| "find_token token ((sck, tok) # rest) =
     (if lower tok = lower token then Some sck else find_token token rest)"

definition register_handler :: "env \<Rightarrow> string \<Rightarrow> string \<Rightarrow> string \<Rightarrow> server \<Rightarrow> bool outcome" where
  "register_handler e token room author s =
     (case find_token token (awaiting_registeration s) of
        None \<Rightarrow> Returned False s
      | Some sck \<Rightarrow>
          (let s1 = s\<lparr>awaiting_registeration := dict_pop sck (awaiting_registeration s)\<rparr>;
               response = ''USERINFORMATION;'' @ room @ '';'' @ author
           in case sendall e sck (encode response) s1 of
                Raised x s2 \<Rightarrow> Raised x s2
              | Returned u s2 \<Rightarrow> Returned True s2))"

section \<open>\<open>_broadcast_information\<close> (lines 66-87)\<close>

text \<open>
  The first loop, over the items of \<open>server_ids\<close> as they are when it starts, with
  \<open>to_delete\<close> as it grows. The handler of lines 81-83 raises again what it caught,
  before the \<open>append\<close> on the line after: the loop ends there and \<open>to_delete\<close> stays
  as it was.
\<close>

fun broadcast_loop :: "env \<Rightarrow> (sock \<times> string) list \<Rightarrow> sock list \<Rightarrow> server \<Rightarrow> (sock list) outcome" where
  "broadcast_loop e [] to_delete s = Returned to_delete s"
| "broadcast_loop e ((sck, room) # rest) to_delete s =
     (case get_player_values e s room of
        Inl x \<Rightarrow> Raised x s
      | Inr vals \<Rightarrow>
          (case sendall e sck (encode (information vals)) s of
             Raised x s' \<Rightarrow> Raised x s'
           | Returned u s' \<Rightarrow> broadcast_loop e rest to_delete s'))"

definition broadcast_information :: "env \<Rightarrow> server \<Rightarrow> unit outcome" where
  "broadcast_information e s =
     (case broadcast_loop e (server_ids s) [] s of
        Raised x s' \<Rightarrow> Raised x s'
      | Returned to_delete s' \<Rightarrow>
          Returned () (s'\<lparr>server_ids := foldl (\<lambda>d k. dict_pop k d) (server_ids s') to_delete\<rparr>))"

section \<open>\<open>send_message\<close> and \<open>broadcast_message\<close> (lines 89-108)\<close>

definition send_message :: "env \<Rightarrow> string \<Rightarrow> string \<Rightarrow> server \<Rightarrow> bool \<times> server" where
  "send_message e author message s =
     (case dict_get author (sockets_by_user s) of
        None \<Rightarrow> (False, s)
      | Some sck \<Rightarrow>
          (case sendall e sck (encode (''MESSAGE;'' @ message)) s of
             Raised x s' \<Rightarrow> (False, s')
           | Returned u s' \<Rightarrow> (True, s')))"

fun message_loop :: "env \<Rightarrow> string list \<Rightarrow> string \<Rightarrow> string list \<Rightarrow> server \<Rightarrow> string list \<times> server" where
  "message_loop e [] message to_delete s = (to_delete, s)"
| "message_loop e (author # rest) message to_delete s =
     (case send_message e author message s of
        (True, s') \<Rightarrow> message_loop e rest message to_delete s'
      | (False, s') \<Rightarrow> message_loop e rest message (to_delete @ [author]) s')"

definition broadcast_message :: "env \<Rightarrow> string \<Rightarrow> server \<Rightarrow> server" where
  "broadcast_message e message s =
     (case message_loop e (dict_keys (sockets_by_user s)) message [] s of
        (to_delete, s') \<Rightarrow>
          s'\<lparr>sockets_by_user := foldl (\<lambda>d k. dict_pop k d) (sockets_by_user s') to_delete\<rparr>)"

section \<open>\<open>connection_maintainer\<close> (lines 132-248)\<close>

text \<open>
  What one call of \<open>c_socket.recv\<close> gives: it raises, it returns \<open>None\<close>, it returns
  bytes that are not UTF-8, or it returns bytes, given here by the \<open>str\<close> that
  \<open>data.decode("utf-8")\<close> makes of them.
\<close>

datatype recv = RecvRaises | RecvNone | RecvUndecodable | RecvData string

text \<open>
  The local variables that outlive an iteration of the loop and are read again after
  it. \<open>None\<close> is a name not yet bound: reading it raises \<open>UnboundLocalError\<close>.
\<close>

record locals =
  l_request :: "string option"
  l_server_id :: "string option"
  l_author_id :: "string option"
  l_leftover :: "string list option"

definition unbound :: locals where
  "unbound = \<lparr>l_request = None, l_server_id = None, l_author_id = None, l_leftover = None\<rparr>"

text \<open>
  The branch \<open>request == "COMMAND"\<close> (lines 180-227). \<open>leftover[0]\<close> and
  \<open>leftover[1]\<close> raise \<open>IndexError\<close> outside of any \<open>try\<close>. Under \<open>SUMMON\<close> a
  failing submission is swallowed (lines 187-191). Under \<open>PLAY\<close> the handler of line
  214 names \<open>WrongEntryTypeError\<close>, which the module neither defines nor imports
  (lines 1-8): whatever the submission of line 212 raises, matching it against that
  name raises \<open>NameError\<close>, and lines 215-220 are never reached. Under \<open>RADIO\<close> the
  submission is not guarded.
\<close>

definition command :: "env \<Rightarrow> string \<Rightarrow> string list \<Rightarrow> server \<Rightarrow> unit outcome" where
  "command e room args s =
     (case args of
        [] \<Rightarrow> Raised IndexError s
      | verb # params \<Rightarrow>
          (let s1 = (if verb = ''SUMMON'' \<and> \<not> submit_fails e (SocketSummon room)
                     then submit (SocketSummon room) s else s)
           in case dict_get room (players s) of
                None \<Rightarrow> Returned () s1
              | Some p \<Rightarrow>
                  if verb = ''PLAY_PAUSE'' then
                    (if is_paused p then Returned () (submit (Resume room) s1)
                     else if is_playing p then Returned () (submit (Pause room) s1)
                     else Returned () s1)
                  else if verb = ''SKIP'' then Returned () (submit (Skip room) s1)
                  else if verb = ''VOLUMECHANGE'' then
                    (case params of
                       [] \<Rightarrow> Raised IndexError s1
                     | a # _ \<Rightarrow>
                         (case float_of e a of
                            None \<Rightarrow> Raised ValueError s1
                          | Some x \<Rightarrow>
                              Returned () (s1\<lparr>players := dict_set room (p\<lparr>volume := x\<rparr>) (players s1)\<rparr>)))
                  else if verb = ''PLAY'' then
                    (case params of
                       [] \<Rightarrow> Raised IndexError s1
                     | video_url # _ \<Rightarrow>
                         if submit_fails e (AddEntry room video_url) then Raised NameError s1
                         else Returned () (submit (AddEntry room video_url) s1))
                  else if verb = ''RADIO'' then
                    (case params of
                       [] \<Rightarrow> Raised IndexError s1
                     | radio_name # _ \<Rightarrow>
                         if submit_fails e (SocketRadio radio_name) then Raised SubmitError s1
                         else Returned () (submit (SocketRadio radio_name) s1))
                  else Returned () s1))"

text \<open>Lines 163-227: what is done with a message of at least three fields.\<close>

definition dispatch :: "env \<Rightarrow> sock \<Rightarrow> string \<Rightarrow> string \<Rightarrow> string \<Rightarrow> string list \<Rightarrow> server \<Rightarrow> unit outcome" where
  "dispatch e c req room author rest s =
     (if req = ''REQUEST'' \<and> (case rest of [] \<Rightarrow> False | a # _ \<Rightarrow> a = ''SEND_INFORMATION'') then
        (case get_player_values e s room of
           Inl x \<Rightarrow> Raised x s
         | Inr vals \<Rightarrow> sendall e c (encode (information vals)) s)
      else if req = ''REQUEST'' \<and> room = ''USER_IDENTIFICATION'' then
        Returned () (s\<lparr>awaiting_registeration := dict_set c (lower author) (awaiting_registeration s)\<rparr>)
      else if req = ''COMMAND'' then command e room rest s
      else Returned () s)"

text \<open>
  Lines 150-161: the fields of the message. The names are bound one after the other,
  so a message of one or two fields binds \<open>request\<close> (and \<open>server_id\<close>) before the
  index that fails; the \<open>IndexError\<close> is caught and the loop is left. The test of
  line 156 compares the lowered room id with a word in capitals.
\<close>

datatype step = Continue server locals | Break server locals | Raise exn server

definition handle_message :: "env \<Rightarrow> sock \<Rightarrow> string \<Rightarrow> server \<Rightarrow> locals \<Rightarrow> step" where
  "handle_message e c msg s l =
     (case split CHR '';'' msg of
        [] \<Rightarrow> Break s l
      | [p0] \<Rightarrow> Break s (l\<lparr>l_request := Some p0\<rparr>)
      | [p0, p1] \<Rightarrow> Break s (l\<lparr>l_request := Some p0, l_server_id := Some p1\<rparr>)
      | p0 # p1 # p2 # rest \<Rightarrow>
          (let l' = \<lparr>l_request = Some p0, l_server_id = Some p1, l_author_id = Some p2,
                     l_leftover = Some rest\<rparr>;
               s' = (if lower p1 \<noteq> ''USER_IDENTIFICATION''
                     then s\<lparr>server_ids := dict_set c p1 (server_ids s),
                            sockets_by_user := dict_set p2 c (sockets_by_user s)\<rparr>
                     else s)
           in case dispatch e c p0 p1 p2 rest s' of
                Raised x s'' \<Rightarrow> Raise x s''
              | Returned u s'' \<Rightarrow> Continue s'' l'))"

text \<open>One turn of the loop, lines 135-227, on what \<open>recv\<close> gave.\<close>

definition loop_body :: "env \<Rightarrow> sock \<Rightarrow> recv \<Rightarrow> server \<Rightarrow> locals \<Rightarrow> step" where
  "loop_body e c r s l =
     (case r of
        RecvRaises \<Rightarrow> Break s l
      | RecvNone \<Rightarrow> Break s l
      | RecvUndecodable \<Rightarrow> Raise UnicodeDecodeError s
      | RecvData msg \<Rightarrow>
          if msg = ''exit'' \<or> msg = ''sdown'' \<or> msg = '''' then Break s l
          else if msg = ''ping'' then
            (case sendall e c (utf8_encode ''4==pong'') s of
               Raised x s' \<Rightarrow> Raise x s'
             | Returned u s' \<Rightarrow> Continue s' l)
          else handle_message e c msg s l)"

text \<open>
  The loop on the results of the successive \<open>recv\<close> calls. It is left by \<open>break\<close> or
  by the flag (\<open>Exited\<close>), or by an exception that nothing catches (\<open>Escaped\<close>); when
  the results run out it still waits in \<open>recv\<close> (\<open>Waiting\<close>).
\<close>

datatype loop_end = Exited server locals | Escaped exn server | Waiting server locals

fun read_loop :: "env \<Rightarrow> sock \<Rightarrow> recv list \<Rightarrow> server \<Rightarrow> locals \<Rightarrow> loop_end" where
  "read_loop e c [] s l = (if stop_threads s then Exited s l else Waiting s l)"
| "read_loop e c (r # rs) s l =
     (if stop_threads s then Exited s l
      else case loop_body e c r s l of
             Continue s' l' \<Rightarrow> read_loop e c rs s' l'
           | Break s' l' \<Rightarrow> Exited s' l'
           | Raise x s' \<Rightarrow> Escaped x s')"

text \<open>
  Lines 229-248, after the loop. The key popped from \<open>sockets_by_user\<close> is
  \<open>author_id\<close>, an underscore and \<open>server_id\<close>; both names must be bound. The loop of
  lines 234-238 keeps the last entry of \<open>connections\<close> with this socket, and
  \<open>list.remove\<close> takes its first occurrence out.
\<close>

datatype ending = Finished server | Crashed exn server | Blocked server

definition teardown :: "sock \<Rightarrow> server \<Rightarrow> locals \<Rightarrow> ending" where
  "teardown c s l =
     (case l_author_id l of
        None \<Rightarrow> Crashed UnboundLocalError s
      | Some author \<Rightarrow>
          (case l_server_id l of
             None \<Rightarrow> Crashed UnboundLocalError s
           | Some room \<Rightarrow>
               (let s1 = s\<lparr>sockets_by_user := dict_pop (author @ ''_'' @ room) (sockets_by_user s)\<rparr>;
                    mine = filter (\<lambda>entry. fst (snd entry) = c) (connections s1);
                    s2 = (if mine = [] then s1
                          else s1\<lparr>connections := remove1 (last mine) (connections s1)\<rparr>);
                    s3 = s2\<lparr>server_ids := dict_pop c (server_ids s2)\<rparr>
                in Finished (s3\<lparr>wire := wire s3 @ [(c, Shutdown), (c, Close)]\<rparr>))))"

definition connection_maintainer :: "env \<Rightarrow> sock \<Rightarrow> recv list \<Rightarrow> server \<Rightarrow> ending" where
  "connection_maintainer e c rs s =
     (case read_loop e c rs s unbound of
        Exited s' l \<Rightarrow> teardown c s' l
      | Escaped x s' \<Rightarrow> Crashed x s'
      | Waiting s' l \<Rightarrow> Blocked s')"

section \<open>Concrete situations\<close>

text \<open>An environment in which nothing fails and no float is read, and the server
  after the acceptor has taken in the sockets 1 and 2 (lines 119-128), with no player.\<close>

definition calm :: env where
  "calm = \<lparr>send_fails = (\<lambda>sck. False), submit_fails = (\<lambda>call. False),
            float_of = (\<lambda>txt. None), from_query = (\<lambda>txt. None)\<rparr>"

definition accepted :: server where
  "accepted = \<lparr>connections = [(1, 1, 101), (2, 2, 102)], server_ids = [],
                awaiting_registeration = [], sockets_by_user = [], stop_threads = False,
                players = [], wire = [], calls = []\<rparr>"

definition idle_player :: player where
  "idle_player = \<lparr>current_entry = None, is_playing = False, is_paused = False,
                    progress = 0, volume = 1 / 2\<rparr>"

text \<open>Environments in which one thing fails: every \<open>sendall\<close> on socket 1, and
  every submission to the engine's loop.\<close>

definition socket1_broken :: env where
  "socket1_broken = calm\<lparr>send_fails := (\<lambda>sck. sck = 1)\<rparr>"

definition loop_refuses :: env where
  "loop_refuses = calm\<lparr>submit_fails := (\<lambda>call. True)\<rparr>"

text \<open>The server with a player for \<open>room1\<close> that has no current entry; with both
  sockets bound to \<open>room1\<close>; after socket 1 has asked for a registration with the token
  \<open>ABC123\<close>; and after socket 2 has then done the same with \<open>abc123\<close>.\<close>

definition with_player :: server where
  "with_player = accepted\<lparr>players := [(''room1'', idle_player)]\<rparr>"

definition two_bound :: server where
  "two_bound = accepted\<lparr>server_ids := [(1, ''room1''), (2, ''room1'')],
                         sockets_by_user := [(''userA'', 1), (''userB'', 2)]\<rparr>"

definition one_pending :: server where
  "one_pending = accepted\<lparr>server_ids := [(1, ''USER_IDENTIFICATION'')],
                           sockets_by_user := [(''ABC123'', 1)],
                           awaiting_registeration := [(1, ''abc123'')]\<rparr>"

definition two_pending :: server where
  "two_pending = accepted\<lparr>server_ids := [(1, ''USER_IDENTIFICATION''), (2, ''USER_IDENTIFICATION'')],
                           sockets_by_user := [(''ABC123'', 1), (''abc123'', 2)],
                           awaiting_registeration := [(1, ''abc123''), (2, ''abc123'')]\<rparr>"

section \<open>Notions used in the statements\<close>

text \<open>The pending entries that a presented token matches, in the order of the dict.\<close>

definition matching :: "string \<Rightarrow> server \<Rightarrow> (sock \<times> string) list" where
  "matching token s = filter (\<lambda>kv. lower (snd kv) = lower token) (awaiting_registeration s)"

text \<open>The server as an operation leaves it, however it ends.\<close>

fun after :: "'a outcome \<Rightarrow> server" where
  "after (Returned v s) = s"
| "after (Raised x s) = s"

fun at_end :: "ending \<Rightarrow> server" where
  "at_end (Finished s) = s"
| "at_end (Crashed x s) = s"
| "at_end (Blocked s) = s"

fun reached :: "step \<Rightarrow> server" where
  "reached (Continue s l) = s"
| "reached (Break s l) = s"
| "reached (Raise x s) = s"

fun stopped :: "loop_end \<Rightarrow> server" where
  "stopped (Exited s l) = s"
| "stopped (Escaped x s) = s"
| "stopped (Waiting s l) = s"

text \<open>Every message on the wire is a frame: the encoding of some payload with its
  length in front.\<close>

definition framed :: "(sock \<times> sock_op) list \<Rightarrow> bool" where
  "framed w = (\<forall>k b. (k, Sendall b) \<in> set w \<longrightarrow> (\<exists>p. b = encode p))"

section \<open>The length in front of a frame\<close>

lemma utf8_encode_ascii: "is_ascii s \<Longrightarrow> utf8_encode s = s"
  by (induction s) (simp_all add: utf8_encode_def utf8_char_def is_ascii_def)

lemma utf8_decode_ascii: "is_ascii s \<Longrightarrow> utf8_decode s = Some s"
  by (induction s rule: utf8_decode.induct) (simp_all add: is_ascii_def)

lemma digit_char_code: "d < 10 \<Longrightarrow> code_point (digit_char d) = 48 + d"
  by (simp add: digit_char_def code_point_def)

lemma is_digit_digit_char: "d < 10 \<Longrightarrow> is_digit (digit_char d)"
  by (simp add: is_digit_def digit_char_code)

lemma str_nat_digits: "list_all is_digit (str_nat n)"
proof (induction n rule: str_nat.induct)
  case (1 n)
  show ?case
  proof (cases "n < 10")
    case True
    then show ?thesis by (subst str_nat.simps) (simp add: is_digit_digit_char)
  next
    case False
    with 1 show ?thesis by (subst str_nat.simps) (simp add: is_digit_digit_char)
  qed
qed

lemma str_nat_nonempty: "str_nat n \<noteq> []"
  by (subst str_nat.simps) simp

lemma nat_of_digits_snoc:
  "nat_of_digits (ds @ [d]) = 10 * nat_of_digits ds + (code_point d - 48)"
  by (simp add: nat_of_digits_def)

lemma nat_of_digits_str_nat: "nat_of_digits (str_nat n) = n"
proof (induction n rule: str_nat.induct)
  case (1 n)
  show ?case
  proof (cases "n < 10")
    case True
    then show ?thesis by (subst str_nat.simps) (simp add: nat_of_digits_def digit_char_code)
  next
    case False
    with 1 show ?thesis
      by (subst str_nat.simps) (simp add: nat_of_digits_snoc digit_char_code)
  qed
qed

lemma is_digit_ascii: "is_digit c \<Longrightarrow> code_point c < 128"
  by (simp add: is_digit_def)

lemma str_nat_ascii: "is_ascii (str_nat n)"
  using str_nat_digits [of n] by (auto simp: is_ascii_def list_all_iff dest: is_digit_ascii)

lemma equals_sign_no_digit: "\<not> is_digit CHR ''=''"
  by (simp add: is_digit_def code_point_def)

lemma takeWhile_digits:
  "list_all is_digit ds \<Longrightarrow> takeWhile is_digit (ds @ CHR ''='' # r) = ds"
  by (induction ds) (simp_all add: equals_sign_no_digit)

lemma dropWhile_digits:
  "list_all is_digit ds \<Longrightarrow> dropWhile is_digit (ds @ CHR ''='' # r) = CHR ''='' # r"
  by (induction ds) (simp_all add: equals_sign_no_digit)

lemma is_ascii_append: "is_ascii (a @ b) = (is_ascii a \<and> is_ascii b)"
  by (simp add: is_ascii_def)

lemma frame_text_ascii: "is_ascii p \<Longrightarrow> is_ascii (frame_text p)"
  by (simp add: frame_text_def is_ascii_append str_nat_ascii) (simp add: is_ascii_def code_point_def)

lemma decode_frame_text: "is_ascii p \<Longrightarrow> decode (frame_text p) = Some p"
  by (simp add: decode_def frame_text_def takeWhile_digits dropWhile_digits str_nat_digits
      str_nat_nonempty nat_of_digits_str_nat utf8_decode_ascii Let_def)

lemma utf8_char_length: "length (utf8_char c) = (if code_point c < 128 then 1 else 2)"
  by (simp add: utf8_char_def)

lemma utf8_encode_length_ge: "length s \<le> length (utf8_encode s)"
  by (induction s) (simp_all add: utf8_encode_def utf8_char_length)

lemma utf8_encode_length_eq: "length (utf8_encode s) = length s \<longleftrightarrow> is_ascii s"
proof (induction s)
  case Nil
  then show ?case by (simp add: utf8_encode_def is_ascii_def)
next
  case (Cons c s)
  have ge: "length s \<le> length (utf8_encode s)" by (rule utf8_encode_length_ge)
  have step: "length (utf8_encode (c # s)) = length (utf8_char c) + length (utf8_encode s)"
    by (simp add: utf8_encode_def)
  have asc: "is_ascii (c # s) = (code_point c < 128 \<and> is_ascii s)"
    by (simp add: is_ascii_def)
  show ?case using Cons ge unfolding step asc utf8_char_length by auto
qed

text \<open>
  C4, as the code has it. \<open>encode\<close> writes in front of the payload the number of its
  characters (\<open>len\<close> of the \<open>str\<close>), then \<open>==\<close>, then the payload, all of it UTF-8
  encoded. That number is the byte length of the encoded payload exactly when the payload
  is ASCII, and for an ASCII payload the frame is the byte length, \<open>==\<close> and the payload's
  bytes, and \<open>decode\<close> gives the payload back.
\<close>

theorem encode_length_prefix:
  "encode p = utf8_encode (str_nat (length p) @ ''=='' @ p)
   \<and> (length (utf8_encode p) = length p \<longleftrightarrow> is_ascii p)
   \<and> (is_ascii p \<longrightarrow>
        encode p = str_nat (length (utf8_encode p)) @ ''=='' @ utf8_encode p
        \<and> decode (encode p) = Some p)"
  using frame_text_ascii [of p] decode_frame_text [of p]
  by (auto simp: encode_def utf8_encode_length_eq utf8_encode_ascii frame_text_def)

theorem encode_length_prefix_witness:
  "is_ascii ''MESSAGE;hello''
   \<and> encode ''MESSAGE;hello'' = ''13==MESSAGE;hello''
   \<and> decode (encode ''MESSAGE;hello'') = Some ''MESSAGE;hello''"
proof -
  have h: "is_ascii ''MESSAGE;hello''"
    by code_simp
  have v: "encode ''MESSAGE;hello'' = ''13==MESSAGE;hello''"
    by code_simp
  from encode_length_prefix [of "''MESSAGE;hello''"] h
  have r: "decode (encode ''MESSAGE;hello'') = Some ''MESSAGE;hello''"
    by blast
  from h v r show ?thesis by blast
qed

text \<open>
  C4 as stated fails on a payload that is not ASCII: for the one character U+00E9 the
  frame announces 1, the payload takes 2 bytes, and a receiver that takes 1 byte does not
  get the payload back.
\<close>

theorem encode_length_prefix_counterexample:
  "encode [CHR 0xE9] = ''1=='' @ utf8_encode [CHR 0xE9]
   \<and> length (utf8_encode [CHR 0xE9]) = 2
   \<and> decode (encode [CHR 0xE9]) \<noteq> Some [CHR 0xE9]"
  by code_simp

section \<open>The room id that stands for a registration\<close>

lemma lower_char_not_U: "lower_char c \<noteq> CHR ''U''"
proof -
  have r: "code_point (char_of (n + 32)) = n + 32" if "n + 32 < 256" for n :: nat
    using that by (simp add: code_point_def)
  have u: "code_point CHR ''U'' = 85" by (simp add: code_point_def)
  have "code_point (lower_char c) \<noteq> 85"
  proof (cases "(65 \<le> code_point c \<and> code_point c \<le> 90)
                \<or> (192 \<le> code_point c \<and> code_point c \<le> 222 \<and> code_point c \<noteq> 215)")
    case True
    then have "lower_char c = char_of (code_point c + 32)" by (simp add: lower_char_def Let_def)
    moreover from True have "code_point c + 32 < 256" by auto
    ultimately have "code_point (lower_char c) = code_point c + 32" using r by simp
    with True show ?thesis by auto
  next
    case False
    then have "lower_char c = c" by (auto simp: lower_char_def Let_def)
    with False show ?thesis by auto
  qed
  with u show ?thesis by metis
qed

lemma lower_never_sentinel: "lower room \<noteq> ''USER_IDENTIFICATION''"
proof (cases room)
  case Nil
  then show ?thesis by (simp add: lower_def)
next
  case (Cons c cs)
  then show ?thesis using lower_char_not_U [of c] by (simp add: lower_def)
qed

text \<open>
  C2, what the code does. The test of line 156 lowers the room id before comparing it
  with \<open>USER_IDENTIFICATION\<close>, so no room id is ever equal to it and every message of
  three fields binds the connection. The registration request of a new connection with
  token \<open>ABC123\<close> leaves the connection in \<open>server_ids\<close> under the room
  \<open>USER_IDENTIFICATION\<close> and in \<open>sockets_by_user\<close> under the token, besides the
  pending token.
\<close>

theorem sentinel_frame_binds_connection:
  "lower room \<noteq> ''USER_IDENTIFICATION''
   \<and> handle_message calm 1 ''REQUEST;USER_IDENTIFICATION;ABC123'' accepted unbound
       = Continue (accepted\<lparr>server_ids := [(1, ''USER_IDENTIFICATION'')],
                            sockets_by_user := [(''ABC123'', 1)],
                            awaiting_registeration := [(1, ''abc123'')]\<rparr>)
           \<lparr>l_request = Some ''REQUEST'', l_server_id = Some ''USER_IDENTIFICATION'',
             l_author_id = Some ''ABC123'', l_leftover = Some []\<rparr>"
proof -
  have "handle_message calm 1 ''REQUEST;USER_IDENTIFICATION;ABC123'' accepted unbound
       = Continue (accepted\<lparr>server_ids := [(1, ''USER_IDENTIFICATION'')],
                            sockets_by_user := [(''ABC123'', 1)],
                            awaiting_registeration := [(1, ''abc123'')]\<rparr>)
           \<lparr>l_request = Some ''REQUEST'', l_server_id = Some ''USER_IDENTIFICATION'',
             l_author_id = Some ''ABC123'', l_leftover = Some []\<rparr>"
    by code_simp
  with lower_never_sentinel show ?thesis by blast
qed

section \<open>The end of a connection\<close>

lemma teardown_keeps_pending:
  "awaiting_registeration (at_end (teardown c s l)) = awaiting_registeration s"
  by (simp add: teardown_def Let_def split: option.splits)

lemma teardown_unbound: "teardown c s unbound = Crashed UnboundLocalError s"
  by (simp add: teardown_def unbound_def)

text \<open>
  C1, what the code does. Nothing after the loop touches \<open>awaiting_registeration\<close>,
  and when no name was bound in the loop the cleanup ends on its first line with
  \<open>UnboundLocalError\<close>. On three runs of socket 1: after a snapshot request and
  \<open>exit\<close>, the socket is shut down and closed once and is gone from \<open>connections\<close>
  and \<open>server_ids\<close>, but \<open>sockets_by_user\<close> still maps \<open>userA\<close> to it, the key
  popped on line 229 being \<open>userA_room1\<close>. After a registration request and \<open>exit\<close>,
  the pending token stays as well. When \<open>exit\<close> is the first thing received,
  \<open>author_id\<close> is not bound on line 229 and the function ends there: nothing is
  removed, the socket is neither shut down nor closed.
\<close>

theorem teardown_leaves_registry_entries:
  "awaiting_registeration (at_end (teardown c s l)) = awaiting_registeration s
   \<and> teardown c s unbound = Crashed UnboundLocalError s
   \<and> connection_maintainer calm 1
       [RecvData ''REQUEST;room1;userA;SEND_INFORMATION'', RecvData ''exit''] accepted
     = Finished (accepted\<lparr>connections := [(2, 2, 102)],
          sockets_by_user := [(''userA'', 1)],
          wire := [(1, Sendall (encode ''INFORMATION; ;NOT CONNECTED TO A CHANNEL; ;UNCONNECTED;http://i.imgur.com/nszu54A.jpg;0;0;.5'')),
                   (1, Shutdown), (1, Close)]\<rparr>)
   \<and> connection_maintainer calm 1
       [RecvData ''REQUEST;USER_IDENTIFICATION;ABC123'', RecvData ''exit''] accepted
     = Finished (accepted\<lparr>connections := [(2, 2, 102)],
          sockets_by_user := [(''ABC123'', 1)],
          awaiting_registeration := [(1, ''abc123'')],
          wire := [(1, Shutdown), (1, Close)]\<rparr>)
   \<and> connection_maintainer calm 1 [RecvData ''exit''] accepted
     = Crashed UnboundLocalError accepted"
proof -
  have "connection_maintainer calm 1
       [RecvData ''REQUEST;room1;userA;SEND_INFORMATION'', RecvData ''exit''] accepted
     = Finished (accepted\<lparr>connections := [(2, 2, 102)],
          sockets_by_user := [(''userA'', 1)],
          wire := [(1, Sendall (encode ''INFORMATION; ;NOT CONNECTED TO A CHANNEL; ;UNCONNECTED;http://i.imgur.com/nszu54A.jpg;0;0;.5'')),
                   (1, Shutdown), (1, Close)]\<rparr>)"
    by code_simp
  moreover have "connection_maintainer calm 1
       [RecvData ''REQUEST;USER_IDENTIFICATION;ABC123'', RecvData ''exit''] accepted
     = Finished (accepted\<lparr>connections := [(2, 2, 102)],
          sockets_by_user := [(''ABC123'', 1)],
          awaiting_registeration := [(1, ''abc123'')],
          wire := [(1, Shutdown), (1, Close)]\<rparr>)"
    by code_simp
  moreover have "connection_maintainer calm 1 [RecvData ''exit''] accepted
     = Crashed UnboundLocalError accepted"
    by code_simp
  ultimately show ?thesis
    using teardown_keeps_pending [of c s l] teardown_unbound [of c s] by blast
qed

text \<open>
  C6, what the code does when the first message of a connection has fewer than three
  fields: the loop is left, and line 229 reads \<open>author_id\<close>, which no message has
  bound. The function ends with \<open>UnboundLocalError\<close>; the server is as it was, the
  socket still in \<open>connections\<close>, and neither \<open>shutdown\<close> nor \<open>close\<close> was called.
\<close>

theorem malformed_first_frame_leaves_socket_open:
  "connection_maintainer calm 1 [RecvData ''hello''] accepted
     = Crashed UnboundLocalError accepted
   \<and> connection_maintainer calm 1 [RecvData ''REQUEST;room1''] accepted
     = Crashed UnboundLocalError accepted"
  by code_simp

section \<open>A broadcast that meets a dead socket\<close>

text \<open>
  C3, what the code does with two sockets bound to \<open>room1\<close> when \<open>sendall\<close> on the
  first raises: the handler raises again, \<open>_broadcast_information\<close> ends with the
  error, socket 1 is still in \<open>server_ids\<close> and nothing was sent to socket 2.
\<close>

theorem broadcast_aborts_on_failed_send:
  "broadcast_information socket1_broken two_bound = Raised OSError two_bound"
  by code_simp

section \<open>The command \<open>PLAY\<close>\<close>

lemma command_never_imports:
  "ImportFrom r u \<in> set (calls (after (command e room args s))) \<Longrightarrow> ImportFrom r u \<in> set (calls s)"
  by (auto simp: command_def submit_def Let_def split: list.splits option.splits if_splits)

text \<open>
  C7, what the code does with a \<open>PLAY\<close> command for a room that has a player. The
  reference is submitted once, as \<open>add_entry\<close>, and the loop goes on: what the engine
  later makes of it does not come back, and \<open>import_from\<close> is not submitted. When the
  submission itself raises, the handler's \<open>WrongEntryTypeError\<close> is an unknown name:
  \<open>connection_maintainer\<close> ends with \<open>NameError\<close>, again without \<open>import_from\<close>, and
  without the cleanup of lines 229-248.
\<close>

theorem play_submits_add_entry_only:
  "handle_message calm 1 ''COMMAND;room1;userA;PLAY;http://x/list'' with_player unbound
     = Continue (with_player\<lparr>server_ids := [(1, ''room1'')],
                   sockets_by_user := [(''userA'', 1)],
                   calls := [AddEntry ''room1'' ''http://x/list'']\<rparr>)
         \<lparr>l_request = Some ''COMMAND'', l_server_id = Some ''room1'',
           l_author_id = Some ''userA'', l_leftover = Some [''PLAY'', ''http://x/list'']\<rparr>
   \<and> connection_maintainer loop_refuses 1
         [RecvData ''COMMAND;room1;userA;PLAY;http://x/list''] with_player
     = Crashed NameError (with_player\<lparr>server_ids := [(1, ''room1'')],
                            sockets_by_user := [(''userA'', 1)]\<rparr>)"
  by code_simp

section \<open>The snapshot of a room that plays nothing\<close>

lemma str_nat_hd_digit: "is_digit (hd (str_nat n))"
  using str_nat_digits [of n] str_nat_nonempty [of n]
  by (cases "str_nat n") simp_all

lemma str_round2_hd: "hd (str_round2 x) \<noteq> CHR ''.''"
proof -
  have dot: "\<not> is_digit CHR ''.''" by (simp add: is_digit_def code_point_def)
  have "hd (str_nat k @ r) \<noteq> CHR ''.''" for k r
    using str_nat_hd_digit [of k] str_nat_nonempty [of k] dot by (metis hd_append2)
  then show ?thesis
    by (simp add: str_round2_def Let_def)
qed

lemma str_round2_not_default: "str_round2 x \<noteq> ''.5''"
  using str_round2_hd [of x] by auto

text \<open>
  C8, as the code has it. For a room without a player the snapshot is the tuple of
  defaults, volume \<open>.5\<close> included. For a room whose player has no current entry the
  title is \<open>NONE\<close>, the status \<open>STOPPED\<close>, artist, video id, cover, duration and
  progress are the defaults, and the volume is the player's own, rounded to two decimals
  (line 297), which is never the text \<open>.5\<close>.
\<close>

theorem get_player_values_defaults:
  "(dict_get room (players s) = None \<longrightarrow>
      get_player_values e s room
        = Inr ('' '', ''NOT CONNECTED TO A CHANNEL'', '' '', ''http://i.imgur.com/nszu54A.jpg'',
               ''UNCONNECTED'', ''0'', ''0'', ''.5''))
   \<and> (dict_get room (players s) = Some p \<and> current_entry p = None \<longrightarrow>
      get_player_values e s room
        = Inr ('' '', ''NONE'', '' '', ''http://i.imgur.com/nszu54A.jpg'',
               ''STOPPED'', ''0'', ''0'', str_round2 (volume p))
      \<and> str_round2 (volume p) \<noteq> ''.5'')"
  by (simp add: get_player_values_def default_cover_def str_round2_not_default)

theorem get_player_values_defaults_witness:
  "dict_get ''room1'' (players accepted) = None
   \<and> get_player_values calm accepted ''room1''
        = Inr ('' '', ''NOT CONNECTED TO A CHANNEL'', '' '', ''http://i.imgur.com/nszu54A.jpg'',
               ''UNCONNECTED'', ''0'', ''0'', ''.5'')
   \<and> dict_get ''room1'' (players with_player) = Some idle_player
   \<and> current_entry idle_player = None
   \<and> get_player_values calm with_player ''room1''
        = Inr ('' '', ''NONE'', '' '', ''http://i.imgur.com/nszu54A.jpg'',
               ''STOPPED'', ''0'', ''0'', ''0.5'')"
proof -
  have a: "dict_get ''room1'' (players accepted) = None" by code_simp
  have b: "dict_get ''room1'' (players with_player) = Some idle_player" by code_simp
  have c: "current_entry idle_player = None" by code_simp
  have v: "str_round2 (volume idle_player) = ''0.5''" by code_simp
  from get_player_values_defaults [where room = "''room1''" and s = accepted and e = calm] a
  have r1: "get_player_values calm accepted ''room1''
        = Inr ('' '', ''NOT CONNECTED TO A CHANNEL'', '' '', ''http://i.imgur.com/nszu54A.jpg'',
               ''UNCONNECTED'', ''0'', ''0'', ''.5'')" by blast
  from get_player_values_defaults [where room = "''room1''" and s = with_player and p = idle_player and e = calm] b c
  have "get_player_values calm with_player ''room1''
        = Inr ('' '', ''NONE'', '' '', ''http://i.imgur.com/nszu54A.jpg'',
               ''STOPPED'', ''0'', ''0'', str_round2 (volume idle_player))" by blast
  then have r2: "get_player_values calm with_player ''room1''
        = Inr ('' '', ''NONE'', '' '', ''http://i.imgur.com/nszu54A.jpg'',
               ''STOPPED'', ''0'', ''0'', ''0.5'')" unfolding v .
  from a b c r1 r2 show ?thesis by blast
qed

text \<open>
  C8 as stated fails for a player without a current entry: at volume one half the
  snapshot says \<open>0.5\<close>, not \<open>.5\<close>.
\<close>

theorem idle_player_volume_counterexample:
  "get_player_values calm with_player ''room1''
     = Inr ('' '', ''NONE'', '' '', ''http://i.imgur.com/nszu54A.jpg'',
            ''STOPPED'', ''0'', ''0'', ''0.5'')
   \<and> get_player_values calm with_player ''room1''
     \<noteq> Inr ('' '', ''NONE'', '' '', ''http://i.imgur.com/nszu54A.jpg'',
            ''STOPPED'', ''0'', ''0'', ''.5'')"
  by code_simp

section \<open>Resolving a registration\<close>

lemma pending_states_reached:
  "handle_message calm 1 ''REQUEST;USER_IDENTIFICATION;ABC123'' accepted unbound
     = Continue one_pending \<lparr>l_request = Some ''REQUEST'', l_server_id = Some ''USER_IDENTIFICATION'',
             l_author_id = Some ''ABC123'', l_leftover = Some []\<rparr>
   \<and> handle_message calm 2 ''REQUEST;USER_IDENTIFICATION;abc123'' one_pending unbound
     = Continue two_pending \<lparr>l_request = Some ''REQUEST'', l_server_id = Some ''USER_IDENTIFICATION'',
             l_author_id = Some ''abc123'', l_leftover = Some []\<rparr>"
  by code_simp

lemma dict_get_pop: "dict_get k (dict_pop k d) = None"
  by (induction d) (auto simp: dict_get_def dict_pop_def)

text \<open>
  C9. When the presented token matches a pending entry and \<open>sendall\<close> on the matched
  socket raises, \<open>register_handler\<close> ends with that error, nothing has been sent, and
  the entry of the matched socket is gone from \<open>awaiting_registeration\<close>: the \<open>pop\<close>
  of line 56 comes before the send of lines 58-59.
\<close>

theorem register_handler_send_failure:
  "find_token token (awaiting_registeration s) = Some sck \<Longrightarrow> send_fails e sck \<Longrightarrow>
   register_handler e token room author s
     = Raised OSError (s\<lparr>awaiting_registeration := dict_pop sck (awaiting_registeration s)\<rparr>)
   \<and> dict_get sck (dict_pop sck (awaiting_registeration s)) = None"
  by (simp add: register_handler_def sendall_def Let_def dict_get_pop)

theorem register_handler_send_failure_witness:
  "find_token ''ABC123'' (awaiting_registeration one_pending) = Some 1
   \<and> send_fails socket1_broken 1
   \<and> register_handler socket1_broken ''ABC123'' ''room1'' ''userA'' one_pending
       = Raised OSError (one_pending\<lparr>awaiting_registeration := []\<rparr>)"
proof -
  have a: "find_token ''ABC123'' (awaiting_registeration one_pending) = Some 1" by code_simp
  have b: "send_fails socket1_broken 1" by code_simp
  have p: "dict_pop 1 (awaiting_registeration one_pending) = []" by code_simp
  from register_handler_send_failure [OF a b, of "''room1''" "''userA''"]
  have "register_handler socket1_broken ''ABC123'' ''room1'' ''userA'' one_pending
       = Raised OSError (one_pending\<lparr>awaiting_registeration := dict_pop 1 (awaiting_registeration one_pending)\<rparr>)"
    by blast
  then have "register_handler socket1_broken ''ABC123'' ''room1'' ''userA'' one_pending
       = Raised OSError (one_pending\<lparr>awaiting_registeration := []\<rparr>)" unfolding p .
  with a b show ?thesis by blast
qed

lemma find_token_filter:
  "find_token token d =
     (case filter (\<lambda>kv. lower (snd kv) = lower token) d of [] \<Rightarrow> None | kv # _ \<Rightarrow> Some (fst kv))"
  by (induction d) auto

lemma find_token_none: "matching token s = [] \<Longrightarrow> find_token token (awaiting_registeration s) = None"
  by (simp add: find_token_filter matching_def)

lemma find_token_first:
  "matching token s = (sck, tok) # others \<Longrightarrow> find_token token (awaiting_registeration s) = Some sck"
  by (simp add: find_token_filter matching_def)

lemma matching_token: "matching token s = (sck, tok) # others \<Longrightarrow> lower tok = lower token"
proof -
  assume "matching token s = (sck, tok) # others"
  then have "(sck, tok) \<in> set (filter (\<lambda>kv. lower (snd kv) = lower token) (awaiting_registeration s))"
    by (simp add: matching_def)
  then show ?thesis by simp
qed

lemma matching_after_pop:
  "matching token (s\<lparr>awaiting_registeration := dict_pop sck (awaiting_registeration s), wire := w\<rparr>)
     = filter (\<lambda>kv. fst kv \<noteq> sck) (matching token s)"
  by (simp add: matching_def dict_pop_def conj_commute)

text \<open>
  C5, as the code has it. The presented token is compared with the pending ones after
  lowering both. When none matches, \<open>register_handler\<close> returns \<open>False\<close> and the
  server is as before. When some match and the send to the first matching socket does not
  fail, it returns \<open>True\<close>, that socket's entry is removed and the socket is sent the
  \<open>USERINFORMATION\<close> frame; when that entry was the only match, resolving the same
  token again returns \<open>False\<close> and changes nothing.
\<close>

theorem register_handler_resolves_once:
  "(matching token s = [] \<longrightarrow> register_handler e token room author s = Returned False s)
   \<and> (matching token s = (sck, tok) # others \<and> \<not> send_fails e sck \<longrightarrow>
        lower tok = lower token
        \<and> register_handler e token room author s
            = Returned True
                (s\<lparr>awaiting_registeration := dict_pop sck (awaiting_registeration s),
                   wire := wire s @ [(sck, Sendall (encode (''USERINFORMATION;'' @ room @ '';'' @ author)))]\<rparr>)
        \<and> (others = [] \<longrightarrow>
              register_handler e token room author (after (register_handler e token room author s))
                = Returned False (after (register_handler e token room author s))))"
proof (intro conjI impI)
  assume "matching token s = []"
  then show "register_handler e token room author s = Returned False s"
    by (simp add: register_handler_def find_token_none)
next
  assume h: "matching token s = (sck, tok) # others \<and> \<not> send_fails e sck"
  then show "lower tok = lower token" using matching_token by blast
next
  assume h: "matching token s = (sck, tok) # others \<and> \<not> send_fails e sck"
  then show "register_handler e token room author s
            = Returned True
                (s\<lparr>awaiting_registeration := dict_pop sck (awaiting_registeration s),
                   wire := wire s @ [(sck, Sendall (encode (''USERINFORMATION;'' @ room @ '';'' @ author)))]\<rparr>)"
    by (simp add: register_handler_def find_token_first [of token s sck tok others] sendall_def Let_def)
next
  assume h: "matching token s = (sck, tok) # others \<and> \<not> send_fails e sck" and o: "others = []"
  let ?s' = "s\<lparr>awaiting_registeration := dict_pop sck (awaiting_registeration s),
                   wire := wire s @ [(sck, Sendall (encode (''USERINFORMATION;'' @ room @ '';'' @ author)))]\<rparr>"
  from h have first: "register_handler e token room author s = Returned True ?s'"
    by (simp add: register_handler_def find_token_first [of token s sck tok others] sendall_def Let_def)
  from h o have "matching token ?s' = []"
    by (simp add: matching_after_pop)
  then have "find_token token (awaiting_registeration ?s') = None"
    by (rule find_token_none)
  then have "register_handler e token room author ?s' = Returned False ?s'"
    by (simp add: register_handler_def)
  with first show "register_handler e token room author (after (register_handler e token room author s))
                = Returned False (after (register_handler e token room author s))"
    by simp
qed

theorem register_handler_resolves_once_witness:
  "matching ''ABC123'' accepted = []
   \<and> register_handler calm ''ABC123'' ''room1'' ''userA'' accepted = Returned False accepted
   \<and> matching ''ABC123'' one_pending = [(1, ''abc123'')]
   \<and> \<not> send_fails calm 1
   \<and> lower ''abc123'' = lower ''ABC123''
   \<and> register_handler calm ''ABC123'' ''room1'' ''userA'' one_pending
       = Returned True
           (one_pending\<lparr>awaiting_registeration := [],
              wire := [(1, Sendall (encode ''USERINFORMATION;room1;userA''))]\<rparr>)
   \<and> register_handler calm ''ABC123'' ''room1'' ''userA''
         (one_pending\<lparr>awaiting_registeration := [],
              wire := [(1, Sendall (encode ''USERINFORMATION;room1;userA''))]\<rparr>)
       = Returned False
           (one_pending\<lparr>awaiting_registeration := [],
              wire := [(1, Sendall (encode ''USERINFORMATION;room1;userA''))]\<rparr>)"
proof -
  have a: "matching ''ABC123'' accepted = []" by code_simp
  have b: "matching ''ABC123'' one_pending = [(1, ''abc123'')]" by code_simp
  have c: "\<not> send_fails calm 1" by code_simp
  have p: "dict_pop 1 (awaiting_registeration one_pending) = []" by code_simp
  have w: "wire one_pending = []" by code_simp
  from register_handler_resolves_once [where token = "''ABC123''" and s = accepted and e = calm
      and room = "''room1''" and author = "''userA''"] a
  have r0: "register_handler calm ''ABC123'' ''room1'' ''userA'' accepted = Returned False accepted"
    by blast
  from register_handler_resolves_once [where token = "''ABC123''" and s = one_pending and e = calm
      and room = "''room1''" and author = "''userA''" and sck = 1 and tok = "''abc123''" and others = "[]"] b c
  have l: "lower ''abc123'' = lower ''ABC123''"
    and r1: "register_handler calm ''ABC123'' ''room1'' ''userA'' one_pending
            = Returned True
                (one_pending\<lparr>awaiting_registeration := dict_pop 1 (awaiting_registeration one_pending),
                   wire := wire one_pending @ [(1, Sendall (encode (''USERINFORMATION;'' @ ''room1'' @ '';'' @ ''userA'')))]\<rparr>)"
    and r2: "register_handler calm ''ABC123'' ''room1'' ''userA'' (after (register_handler calm ''ABC123'' ''room1'' ''userA'' one_pending))
                = Returned False (after (register_handler calm ''ABC123'' ''room1'' ''userA'' one_pending))"
    by blast+
  from r1 have r1': "register_handler calm ''ABC123'' ''room1'' ''userA'' one_pending
       = Returned True
           (one_pending\<lparr>awaiting_registeration := [],
              wire := [(1, Sendall (encode ''USERINFORMATION;room1;userA''))]\<rparr>)"
    unfolding p w by simp
  from r2 have r2': "register_handler calm ''ABC123'' ''room1'' ''userA''
         (one_pending\<lparr>awaiting_registeration := [],
              wire := [(1, Sendall (encode ''USERINFORMATION;room1;userA''))]\<rparr>)
       = Returned False
           (one_pending\<lparr>awaiting_registeration := [],
              wire := [(1, Sendall (encode ''USERINFORMATION;room1;userA''))]\<rparr>)"
    unfolding r1' by simp
  from a r0 b c l r1' r2' show ?thesis by blast
qed

text \<open>
  C5 as stated fails when the same token is awaited on two connections (the table is
  keyed by connection): the second resolution of the token succeeds as well, on the
  second socket.
\<close>

theorem second_resolution_counterexample:
  "register_handler calm ''ABC123'' ''room1'' ''userA'' two_pending
     = Returned True
         (two_pending\<lparr>awaiting_registeration := [(2, ''abc123'')],
            wire := [(1, Sendall (encode ''USERINFORMATION;room1;userA''))]\<rparr>)
   \<and> register_handler calm ''ABC123'' ''room1'' ''userA''
         (two_pending\<lparr>awaiting_registeration := [(2, ''abc123'')],
            wire := [(1, Sendall (encode ''USERINFORMATION;room1;userA''))]\<rparr>)
     = Returned True
         (two_pending\<lparr>awaiting_registeration := [],
            wire := [(1, Sendall (encode ''USERINFORMATION;room1;userA'')),
                     (2, Sendall (encode ''USERINFORMATION;room1;userA''))]\<rparr>)"
  by code_simp

section \<open>Framing in the two directions\<close>

lemma frame_text_has_equals: "CHR ''='' \<in> set (frame_text p)"
  by (simp add: frame_text_def)

lemma frame_text_no_literal:
  "frame_text p \<noteq> ''exit''" "frame_text p \<noteq> ''sdown''" "frame_text p \<noteq> ''''"
  "frame_text p \<noteq> ''ping''"
  using frame_text_has_equals [of p] by auto

lemma pong_is_frame: "utf8_encode ''4==pong'' = encode ''pong''"
  by code_simp

lemma framed_send: "framed w \<Longrightarrow> framed (w @ [(k, Sendall (encode p))])"
  by (auto simp: framed_def)

lemma framed_close: "framed w \<Longrightarrow> framed (w @ [(k, Shutdown), (k, Close)])"
  by (auto simp: framed_def)

lemma sendall_framed: "framed (wire s) \<Longrightarrow> framed (wire (after (sendall e k (encode p) s)))"
  by (simp add: sendall_def framed_send)

lemma command_wire: "wire (after (command e room args s)) = wire s"
  by (auto simp: command_def submit_def Let_def split: list.splits option.splits)

lemma dispatch_framed:
  "framed (wire s) \<Longrightarrow> framed (wire (after (dispatch e c req room author rest s)))"
  by (auto simp: dispatch_def command_wire sendall_framed split: sum.splits)

lemma handle_message_framed:
  assumes "framed (wire s)"
  shows "framed (wire (reached (handle_message e c msg s l)))"
proof -
  have "framed (wire (after (dispatch e c req room author rest (s\<lparr>server_ids := a, sockets_by_user := b\<rparr>))))"
    for req room author rest a b
    using assms by (intro dispatch_framed) simp
  moreover have "framed (wire (after (dispatch e c req room author rest s)))" for req room author rest
    using assms by (rule dispatch_framed)
  moreover have "reached (case r of Raised x s'' \<Rightarrow> Raise x s'' | Returned u s'' \<Rightarrow> Continue s'' l') = after r"
    for r :: "unit outcome" and l'
    by (cases r) simp_all
  ultimately show ?thesis using assms
    by (auto simp: handle_message_def Let_def split: list.splits)
qed

lemma loop_body_framed:
  assumes "framed (wire s)"
  shows "framed (wire (reached (loop_body e c r s l)))"
proof (cases r)
  case (RecvData msg)
  have "framed (wire (after (sendall e c (encode ''pong'') s)))"
    using assms by (rule sendall_framed)
  then have "framed (wire (reached (case sendall e c (utf8_encode ''4==pong'') s of
               Raised x s' \<Rightarrow> Raise x s' | Returned u s' \<Rightarrow> Continue s' l)))"
    unfolding pong_is_frame by (cases "sendall e c (encode ''pong'') s") simp_all
  with RecvData assms show ?thesis
    by (simp add: loop_body_def handle_message_framed)
qed (use assms in \<open>simp_all add: loop_body_def\<close>)

lemma read_loop_framed:
  "framed (wire s) \<Longrightarrow> framed (wire (stopped (read_loop e c rs s l)))"
proof (induction rs arbitrary: s l)
  case Nil
  then show ?case by simp
next
  case (Cons r rs)
  from Cons.prems have b: "framed (wire (reached (loop_body e c r s l)))"
    by (rule loop_body_framed)
  show ?case
  proof (cases "loop_body e c r s l")
    case (Continue s' l')
    with b have "framed (wire s')" by simp
    then have "framed (wire (stopped (read_loop e c rs s' l')))" by (rule Cons.IH)
    with Continue Cons.prems show ?thesis by simp
  next
    case (Break s' l')
    with b Cons.prems show ?thesis by simp
  next
    case (Raise x s')
    with b Cons.prems show ?thesis by simp
  qed
qed

lemma teardown_framed: "framed (wire s) \<Longrightarrow> framed (wire (at_end (teardown c s l)))"
  by (auto simp: teardown_def Let_def framed_close split: option.splits)

lemma connection_maintainer_framed:
  assumes "framed (wire s)"
  shows "framed (wire (at_end (connection_maintainer e c rs s)))"
proof -
  from assms have b: "framed (wire (stopped (read_loop e c rs s unbound)))"
    by (rule read_loop_framed)
  show ?thesis
  proof (cases "read_loop e c rs s unbound")
    case (Exited s' l')
    with b have "framed (wire s')" by simp
    then have "framed (wire (at_end (teardown c s' l')))" by (rule teardown_framed)
    with Exited show ?thesis by (simp add: connection_maintainer_def)
  next
    case (Escaped x s')
    with b show ?thesis by (simp add: connection_maintainer_def)
  next
    case (Waiting s' l')
    with b show ?thesis by (simp add: connection_maintainer_def)
  qed
qed

lemma register_handler_framed:
  assumes "framed (wire s)"
  shows "framed (wire (after (register_handler e token room author s)))"
proof (cases "find_token token (awaiting_registeration s)")
  case None
  with assms show ?thesis by (simp add: register_handler_def)
next
  case (Some sck)
  let ?s1 = "s\<lparr>awaiting_registeration := dict_pop sck (awaiting_registeration s)\<rparr>"
  let ?r = "sendall e sck (encode (''USERINFORMATION;'' @ room @ '';'' @ author)) ?s1"
  from assms have "framed (wire ?s1)" by simp
  then have "framed (wire (after ?r))" by (rule sendall_framed)
  moreover have "after (case ?r of Raised x s2 \<Rightarrow> Raised x s2 | Returned u s2 \<Rightarrow> Returned True s2) = after ?r"
    by (cases ?r) simp_all
  ultimately show ?thesis using Some by (simp add: register_handler_def Let_def)
qed

lemma broadcast_loop_framed:
  "framed (wire s) \<Longrightarrow> framed (wire (after (broadcast_loop e items to_delete s)))"
proof (induction items arbitrary: s)
  case Nil
  then show ?case by simp
next
  case (Cons item items)
  obtain sck room where item: "item = (sck, room)" by (cases item)
  show ?case
  proof (cases "get_player_values e s room")
    case (Inl x)
    with item Cons.prems show ?thesis by simp
  next
    case (Inr vals)
    from Cons.prems have b: "framed (wire (after (sendall e sck (encode (information vals)) s)))"
      by (rule sendall_framed)
    show ?thesis
    proof (cases "sendall e sck (encode (information vals)) s")
      case (Returned u s')
      with b have "framed (wire s')" by simp
      then have "framed (wire (after (broadcast_loop e items to_delete s')))" by (rule Cons.IH)
      with item Inr Returned show ?thesis by simp
    next
      case (Raised x s')
      with b item Inr show ?thesis by simp
    qed
  qed
qed

lemma broadcast_information_framed:
  assumes "framed (wire s)"
  shows "framed (wire (after (broadcast_information e s)))"
proof -
  from assms have b: "framed (wire (after (broadcast_loop e (server_ids s) [] s)))"
    by (rule broadcast_loop_framed)
  then show ?thesis
    by (cases "broadcast_loop e (server_ids s) [] s") (simp_all add: broadcast_information_def)
qed

lemma send_message_framed:
  assumes "framed (wire s)"
  shows "framed (wire (snd (send_message e author message s)))"
proof (cases "dict_get author (sockets_by_user s)")
  case None
  with assms show ?thesis by (simp add: send_message_def)
next
  case (Some sck)
  from assms have b: "framed (wire (after (sendall e sck (encode (''MESSAGE;'' @ message)) s)))"
    by (rule sendall_framed)
  then show ?thesis using Some
    by (cases "sendall e sck (encode (''MESSAGE;'' @ message)) s") (simp_all add: send_message_def)
qed

lemma message_loop_framed:
  "framed (wire s) \<Longrightarrow> framed (wire (snd (message_loop e authors message to_delete s)))"
proof (induction authors arbitrary: s to_delete)
  case Nil
  then show ?case by simp
next
  case (Cons author authors)
  from Cons.prems have b: "framed (wire (snd (send_message e author message s)))"
    by (rule send_message_framed)
  obtain ok s' where r: "send_message e author message s = (ok, s')"
    by (cases "send_message e author message s")
  with b have "framed (wire s')" by simp
  then have "framed (wire (snd (message_loop e authors message td s')))" for td
    by (rule Cons.IH)
  with r show ?case by (cases ok) simp_all
qed

lemma broadcast_message_framed:
  assumes "framed (wire s)"
  shows "framed (wire (broadcast_message e message s))"
proof -
  from assms have b: "framed (wire (snd (message_loop e (dict_keys (sockets_by_user s)) message [] s)))"
    by (rule message_loop_framed)
  then show ?thesis
    by (cases "message_loop e (dict_keys (sockets_by_user s)) message [] s")
       (simp add: broadcast_message_def)
qed

text \<open>
  C10. What \<open>recv\<close> returned is, once decoded, the message as a whole: the loop is
  left on exactly \<open>exit\<close>, \<open>sdown\<close> and the empty text, \<open>pong\<close> is sent on exactly
  \<open>ping\<close>, and any other text goes to the splitting at \<open>;\<close> as it is. A text with a
  length in front, \<open>frame_text p\<close>, is therefore never a keepalive or a disconnect; the
  framed \<open>4==ping\<close> is split like any message (into one field, which ends the loop) and
  gets no \<open>pong\<close>. In the other direction every message is framed: when all that was
  sent before is, all that has been sent after \<open>connection_maintainer\<close>,
  \<open>register_handler\<close>, \<open>_broadcast_information\<close> or \<open>broadcast_message\<close> is.
\<close>

theorem receive_path_reads_chunks_verbatim:
  "loop_body e c (RecvData msg) s l =
     (if msg = ''exit'' \<or> msg = ''sdown'' \<or> msg = '''' then Break s l
      else if msg = ''ping'' then
        (if send_fails e c then Raise OSError s
         else Continue (s\<lparr>wire := wire s @ [(c, Sendall (encode ''pong''))]\<rparr>) l)
      else handle_message e c msg s l)
   \<and> loop_body e c (RecvData (frame_text p)) s l = handle_message e c (frame_text p) s l
   \<and> loop_body e c (RecvData ''4==ping'') s l = Break s (l\<lparr>l_request := Some ''4==ping''\<rparr>)
   \<and> (framed (wire s) \<longrightarrow>
        framed (wire (at_end (connection_maintainer e c rs s)))
        \<and> framed (wire (after (register_handler e token room author s)))
        \<and> framed (wire (after (broadcast_information e s)))
        \<and> framed (wire (broadcast_message e message s)))"
proof (intro conjI impI)
  show "loop_body e c (RecvData msg) s l =
     (if msg = ''exit'' \<or> msg = ''sdown'' \<or> msg = '''' then Break s l
      else if msg = ''ping'' then
        (if send_fails e c then Raise OSError s
         else Continue (s\<lparr>wire := wire s @ [(c, Sendall (encode ''pong''))]\<rparr>) l)
      else handle_message e c msg s l)"
    unfolding loop_body_def pong_is_frame by (simp add: sendall_def)
  show "loop_body e c (RecvData (frame_text p)) s l = handle_message e c (frame_text p) s l"
    using frame_text_no_literal [of p] by (simp add: loop_body_def)
  have "split CHR '';'' ''4==ping'' = [''4==ping'']" by code_simp
  then show "loop_body e c (RecvData ''4==ping'') s l = Break s (l\<lparr>l_request := Some ''4==ping''\<rparr>)"
    by (simp add: loop_body_def handle_message_def)
qed (rule connection_maintainer_framed register_handler_framed broadcast_information_framed
       broadcast_message_framed, assumption)+

theorem receive_path_reads_chunks_verbatim_witness:
  "framed (wire accepted)
   \<and> framed (wire (at_end (connection_maintainer calm 1
        [RecvData ''ping'', RecvData ''REQUEST;room1;userA;SEND_INFORMATION'', RecvData ''4==ping'']
        accepted)))
   \<and> wire (at_end (connection_maintainer calm 1
        [RecvData ''ping'', RecvData ''REQUEST;room1;userA;SEND_INFORMATION'', RecvData ''4==ping'']
        accepted))
      = [(1, Sendall ''4==pong''),
         (1, Sendall ''92==INFORMATION; ;NOT CONNECTED TO A CHANNEL; ;UNCONNECTED;http://i.imgur.com/nszu54A.jpg;0;0;.5''),
         (1, Shutdown), (1, Close)]"
proof -
  have a: "framed (wire accepted)" by (simp add: framed_def accepted_def)
  from receive_path_reads_chunks_verbatim [where s = accepted and e = calm and c = 1
      and rs = "[RecvData ''ping'', RecvData ''REQUEST;room1;userA;SEND_INFORMATION'', RecvData ''4==ping'']"] a
  have b: "framed (wire (at_end (connection_maintainer calm 1
        [RecvData ''ping'', RecvData ''REQUEST;room1;userA;SEND_INFORMATION'', RecvData ''4==ping'']
        accepted)))" by blast
  have c: "wire (at_end (connection_maintainer calm 1
        [RecvData ''ping'', RecvData ''REQUEST;room1;userA;SEND_INFORMATION'', RecvData ''4==ping'']
        accepted))
      = [(1, Sendall ''4==pong''),
         (1, Sendall ''92==INFORMATION; ;NOT CONNECTED TO A CHANNEL; ;UNCONNECTED;http://i.imgur.com/nszu54A.jpg;0;0;.5''),
         (1, Shutdown), (1, Close)]" by code_simp
  from a b c show ?thesis by blast
qed

end
